theory Spec2Isabelle
  imports Main "HOL-Library.Word" "HOL-Library.Mapping" "HOL-Library.AList_Mapping"
begin

section \<open>The OAuth2 token-introspection authenticator\<close>

text \<open>
  A shallow embedding of \<^verbatim>\<open>pipeline/authn/authenticator_oauth2_introspection.go\<close>:
  the three methods \<^verbatim>\<open>Config\<close>, \<^verbatim>\<open>Validate\<close> and \<^verbatim>\<open>Authenticate\<close> of
  \<^verbatim>\<open>AuthenticatorOAuth2Introspection\<close>.

  Go pointers to structs are \<open>option\<close> values (\<open>None\<close> is \<^verbatim>\<open>nil\<close>), a Go \<^verbatim>\<open>error\<close>
  is a value of the datatype \<open>error\<close>, a method that assigns to a field of its receiver
  returns the receiver it leaves behind, and everything the file calls in other packages
  (the configuration provider, the Go standard library, the HTTP client) is a field of a
  record of functions that the methods take as an argument.
\<close>

subsection \<open>Errors\<close>

text \<open>
  The error values the file builds. \<open>WithStack\<close> is \<^verbatim>\<open>errors.WithStack\<close>, \<open>Errorf\<close>
  is \<^verbatim>\<open>errors.Errorf\<close> with its format string and its integer arguments,
  \<open>ErrForbidden\<close> and \<open>ErrUnauthorized\<close> are \<^verbatim>\<open>helper.ErrForbidden.WithReason\<close> and
  \<^verbatim>\<open>helper.ErrUnauthorized.WithReason\<close> with the reason,
  \<open>ErrAuthenticatorMisconfigured\<close> and \<open>ErrAuthenticatorNotEnabled\<close> are what
  \<^verbatim>\<open>NewErrAuthenticatorMisconfigured\<close> and \<^verbatim>\<open>NewErrAuthenticatorNotEnabled\<close> return
  (the authenticator's id, and the error wrapped). \<open>Foreign\<close> is an error value made
  outside this package (by the provider, \<^verbatim>\<open>time\<close>, \<^verbatim>\<open>net/http\<close> or
  \<^verbatim>\<open>encoding/json\<close>), known by its message.
\<close>

datatype error =
    ErrAuthenticatorNotResponsible
  | ErrAuthenticatorNotEnabled string
  | ErrAuthenticatorMisconfigured string error
  | ErrForbidden string
  | ErrUnauthorized string
  | Errorf string "int list"
  | Foreign string
  | WithStack error

subsection \<open>Data\<close>

type_synonym RawMessage = string

text \<open>\<^verbatim>\<open>time.Duration\<close> is an \<^verbatim>\<open>int64\<close> count of nanoseconds; \<open>*\<close> on it wraps.\<close>

type_synonym Duration = "64 word"

definition Millisecond :: Duration where
  "Millisecond = 1000000"

record AuthenticatorOAuth2IntrospectionPreAuthConfiguration =
  Enabled :: bool
  ClientID :: string
  ClientSecret :: string
  Scope :: "string list"
  TokenURL :: string

record AuthenticatorOAuth2IntrospectionRetryConfiguration =
  Timeout :: string
  MaxWait :: string

text \<open>
  Modelled from the spec: \<^verbatim>\<open>helper.BearerTokenLocation\<close> is declared outside the files
  at hand; the spec names its three request locations (header, query parameter, cookie).
  The file only hands the value on to \<^verbatim>\<open>helper.BearerTokenFromRequest\<close>.
\<close>

datatype BearerTokenLocation =
    FromHeader string
  | FromQueryParameter string
  | FromCookie string

text \<open>
  \<^verbatim>\<open>IntrospectionRequestHeaders\<close> is a Go map that \<^verbatim>\<open>Authenticate\<close> ranges over; Go
  fixes no order for that, so the field is the list of its entries in the order of the
  iteration.
\<close>

record AuthenticatorOAuth2IntrospectionConfiguration =
  Scopes :: "string list"
  Audience :: "string list"
  Issuers :: "string list"
  PreAuth :: "AuthenticatorOAuth2IntrospectionPreAuthConfiguration option"
  ScopeStrategy :: string
  IntrospectionURL :: string
  BearerTokenLocation :: "BearerTokenLocation option"
  IntrospectionRequestHeaders :: "(string \<times> string) list"
  Retry :: "AuthenticatorOAuth2IntrospectionRetryConfiguration option"

typedecl float64

text \<open>A Go \<^verbatim>\<open>interface{}\<close> value as \<^verbatim>\<open>encoding/json\<close> produces it.\<close>

datatype any =
    VNil
  | VBool bool
  | VFloat64 float64
  | VString string
  | VArray "any list"
  | VObject "(string \<times> any) list"

text \<open>
  \<^verbatim>\<open>AuthenticatorOAuth2IntrospectionResult\<close>. The fields whose names the configuration
  or the session also use carry the suffix \<open>_i\<close>, after the variable \<^verbatim>\<open>i\<close> that holds
  the result in \<^verbatim>\<open>Authenticate\<close>. A \<^verbatim>\<open>nil\<close> map is \<open>None\<close>.
\<close>

record AuthenticatorOAuth2IntrospectionResult =
  Active :: bool
  Extra_i :: "(string, any) mapping option"
  Subject_i :: string
  Username :: string
  Audience_i :: "string list"
  TokenType :: string
  Issuer :: string
  ClientID_i :: string
  Scope_i :: string

record AuthenticationSession =
  Subject :: string
  Extra :: "(string, any) mapping option"

text \<open>\<^verbatim>\<open>http.Request\<close> and \<^verbatim>\<open>http.Response\<close>, with the fields the file touches.\<close>

record http_request =
  Method :: string
  URL :: string
  Header :: "string \<rightharpoonup> string list"
  Body :: string

record http_response =
  StatusCode :: int
  Body_resp :: string

text \<open>
  The HTTP client an authenticator holds, as the term that built it: the two constructors
  of \<^verbatim>\<open>httpx\<close> the file calls, on the transport they wrap.
  \<open>ClientCredentialsTransport\<close> is
  \<^verbatim>\<open>(&clientcredentials.Config{...}).Client(context.Background()).Transport\<close> with the
  client id, the client secret, the scopes and the token URL.
\<close>

datatype RoundTripper =
    NilRoundTripper
  | ClientCredentialsTransport string string "string list" string

datatype http_client =
    NewResilientClientLatencyToleranceSmall RoundTripper
  | NewResilientClientLatencyToleranceConfigurable RoundTripper Duration Duration

type_synonym ScopeStrategy = "string list \<Rightarrow> string \<Rightarrow> bool"

text \<open>
  \<^verbatim>\<open>configuration.Provider\<close>, the three methods the file calls.
  \<open>AuthenticatorConfig\<close> returns the configuration it decoded into its third argument,
  or the error. \<open>ToScopeStrategy\<close> returns \<open>None\<close> for Go's \<^verbatim>\<open>nil\<close> strategy.
\<close>

record Provider =
  AuthenticatorConfig ::
    "string \<Rightarrow> RawMessage \<Rightarrow> error + AuthenticatorOAuth2IntrospectionConfiguration"
  AuthenticatorIsEnabled :: "string \<Rightarrow> bool"
  ToScopeStrategy :: "string \<Rightarrow> string \<Rightarrow> ScopeStrategy option"

text \<open>The receiver. The field \<^verbatim>\<open>c\<close> of the source is \<open>provider\<close> here.\<close>

record AuthenticatorOAuth2Introspection =
  provider :: Provider
  client :: http_client

text \<open>
  The functions of other packages:
  \<^verbatim>\<open>time.ParseDuration\<close>, \<^verbatim>\<open>helper.BearerTokenFromRequest\<close>,
  \<^verbatim>\<open>url.Values.Encode\<close>, \<^verbatim>\<open>http.NewRequest\<close>,
  \<^verbatim>\<open>textproto.CanonicalMIMEHeaderKey\<close> (which \<^verbatim>\<open>Header.Set\<close> applies to the key),
  \<^verbatim>\<open>http.Client.Do\<close> (the network's answer to a request sent through a client),
  \<^verbatim>\<open>json.Decoder.Decode\<close> into a zero \<^verbatim>\<open>AuthenticatorOAuth2IntrospectionResult\<close>,
  and \<^verbatim>\<open>stringslice.Has\<close>.
\<close>

record Runtime =
  ParseDuration :: "string \<Rightarrow> error + Duration"
  BearerTokenFromRequest :: "http_request \<Rightarrow> BearerTokenLocation option \<Rightarrow> string"
  Encode :: "(string \<rightharpoonup> string list) \<Rightarrow> string"
  NewRequest :: "string \<Rightarrow> string \<Rightarrow> string \<Rightarrow> error + http_request"
  CanonicalMIMEHeaderKey :: "string \<Rightarrow> string"
  Do :: "http_client \<Rightarrow> http_request \<Rightarrow> error + http_response"
  Decode :: "string \<Rightarrow> error + AuthenticatorOAuth2IntrospectionResult"
  Has :: "string list \<Rightarrow> string \<Rightarrow> bool"

subsection \<open>Small library functions, written out\<close>

text \<open>\<^verbatim>\<open>strings.Join(elems, sep)\<close>.\<close>

fun Join :: "string list \<Rightarrow> string \<Rightarrow> string" where
  "Join [] sep = []"
| "Join [x] sep = x"
| "Join (x # y # ys) sep = x @ sep @ Join (y # ys) sep"

text \<open>
  \<^verbatim>\<open>strings.Split(s, sep)\<close> for a separator of one byte, the only kind the file passes:
  the pieces between the separators, one more than there are separators.
\<close>

fun Split :: "string \<Rightarrow> char \<Rightarrow> string list" where
  "Split [] sep = [[]]"
| "Split (x # xs) sep =
     (if x = sep then [] # Split xs sep
      else (case Split xs sep of [] \<Rightarrow> [[x]] | y # ys \<Rightarrow> (x # y) # ys))"

text \<open>\<^verbatim>\<open>url.Values.Add(key, value)\<close>: append to the values of the key.\<close>

definition Values_Add :: "(string \<rightharpoonup> string list) \<Rightarrow> string \<Rightarrow> string \<Rightarrow> (string \<rightharpoonup> string list)" where
  "Values_Add v key val =
     v(key \<mapsto> (case v key of None \<Rightarrow> [] | Some vals \<Rightarrow> vals) @ [val])"

text \<open>\<^verbatim>\<open>http.Header.Set(key, value)\<close>: replace the values of the canonical key.\<close>

definition Header_Set :: "Runtime \<Rightarrow> (string \<rightharpoonup> string list) \<Rightarrow> string \<Rightarrow> string \<Rightarrow> (string \<rightharpoonup> string list)" where
  "Header_Set env h key val = h(CanonicalMIMEHeaderKey env key \<mapsto> [val])"

subsection \<open>GetID, Config and Validate\<close>

definition GetID :: "AuthenticatorOAuth2Introspection \<Rightarrow> string" where
  "GetID a = ''oauth2_introspection''"

definition NewErrAuthenticatorMisconfigured :: "AuthenticatorOAuth2Introspection \<Rightarrow> error \<Rightarrow> error" where
  "NewErrAuthenticatorMisconfigured a err = ErrAuthenticatorMisconfigured (GetID a) err"

definition NewErrAuthenticatorNotEnabled :: "AuthenticatorOAuth2Introspection \<Rightarrow> error" where
  "NewErrAuthenticatorNotEnabled a = ErrAuthenticatorNotEnabled (GetID a)"

text \<open>
  Lines 176 to 185 of \<^verbatim>\<open>Config\<close>: the retry block \<^verbatim>\<open>c.Retry\<close> points to once the
  defaults are in.
\<close>

definition default_retry ::
  "AuthenticatorOAuth2IntrospectionRetryConfiguration option \<Rightarrow>
   AuthenticatorOAuth2IntrospectionRetryConfiguration" where
  "default_retry r =
     (case r of
        None \<Rightarrow> \<lparr>Timeout = ''500ms'', MaxWait = ''1s''\<rparr>
      | Some rt \<Rightarrow>
          (let rt1 = (if Timeout rt = [] then rt\<lparr>Timeout := ''500ms''\<rparr> else rt);
               rt2 = (if MaxWait rt1 = [] then rt1\<lparr>MaxWait := ''1s''\<rparr> else rt1)
           in rt2))"

text \<open>
  \<^verbatim>\<open>Config\<close> returns the configuration or the error, and the receiver as the call
  leaves it: line 197 assigns to \<^verbatim>\<open>a.client\<close>.
\<close>

definition Config ::
  "Runtime \<Rightarrow> AuthenticatorOAuth2Introspection \<Rightarrow> RawMessage \<Rightarrow>
   (error + AuthenticatorOAuth2IntrospectionConfiguration) \<times> AuthenticatorOAuth2Introspection" where
  "Config env a config =
     (case AuthenticatorConfig (provider a) (GetID a) config of
        Inl err \<Rightarrow> (Inl (NewErrAuthenticatorMisconfigured a err), a)
      | Inr c0 \<Rightarrow>
          (case PreAuth c0 of
             None \<Rightarrow> (Inr c0, a)
           | Some p \<Rightarrow>
               if \<not> Enabled p then (Inr c0, a)
               else
                 (let retry = default_retry (Retry c0);
                      c = c0\<lparr>Retry := Some retry\<rparr>
                  in case ParseDuration env (Timeout retry) of
                       Inl err \<Rightarrow> (Inl err, a)
                     | Inr duration \<Rightarrow>
                         (let timeout = Millisecond * duration
                          in case ParseDuration env (MaxWait retry) of
                               Inl err \<Rightarrow> (Inl err, a)
                             | Inr maxWait \<Rightarrow>
                                 (Inr c,
                                  a\<lparr>client :=
                                      NewResilientClientLatencyToleranceConfigurable
                                        (ClientCredentialsTransport
                                           (ClientID p) (ClientSecret p) (Scope p) (TokenURL p))
                                        timeout maxWait\<rparr>)))))"

definition Validate ::
  "Runtime \<Rightarrow> AuthenticatorOAuth2Introspection \<Rightarrow> RawMessage \<Rightarrow>
   error option \<times> AuthenticatorOAuth2Introspection" where
  "Validate env a config =
     (if \<not> AuthenticatorIsEnabled (provider a) (GetID a)
      then (Some (NewErrAuthenticatorNotEnabled a), a)
      else (case Config env a config of
              (Inl err, a') \<Rightarrow> (Some err, a')
            | (Inr _, a') \<Rightarrow> (None, a')))"

subsection \<open>Authenticate\<close>

text \<open>Lines 99 to 103: the configured headers, then the content type, set on the request.\<close>

definition set_headers ::
  "Runtime \<Rightarrow> AuthenticatorOAuth2IntrospectionConfiguration \<Rightarrow> http_request \<Rightarrow> http_request" where
  "set_headers env cf req =
     (let h = fold (\<lambda>(key, val) h. Header_Set env h key val)
                (IntrospectionRequestHeaders cf) (Header req)
      in req\<lparr>Header :=
               Header_Set env h ''Content-Type'' ''application/x-www-form-urlencoded''\<rparr>)"

text \<open>
  Lines 88 to 116: build the form and the request, send it through \<^verbatim>\<open>a.client\<close>, and
  decode the answer. The second component lists the requests handed to
  \<^verbatim>\<open>a.client.Do\<close>.
\<close>

definition introspect ::
  "Runtime \<Rightarrow> AuthenticatorOAuth2Introspection \<Rightarrow>
   AuthenticatorOAuth2IntrospectionConfiguration \<Rightarrow> ScopeStrategy option \<Rightarrow> string \<Rightarrow>
   (error + AuthenticatorOAuth2IntrospectionResult) \<times> http_request list" where
  "introspect env a cf ss token =
     (let body0 = [''token'' \<mapsto> [token]];
          body = (case ss of
                    None \<Rightarrow> Values_Add body0 ''scope'' (Join (Scopes cf) '' '')
                  | Some _ \<Rightarrow> body0)
      in case NewRequest env ''POST'' (IntrospectionURL cf) (Encode env body) of
           Inl err \<Rightarrow> (Inl (WithStack err), [])
         | Inr req \<Rightarrow>
             (let introspectReq = set_headers env cf req
              in case Do env (client a) introspectReq of
                   Inl err \<Rightarrow> (Inl (WithStack err), [introspectReq])
                 | Inr resp \<Rightarrow>
                     if StatusCode resp \<noteq> 200
                     then (Inl (Errorf ''Introspection returned status code %d but expected %d''
                                  [StatusCode resp, 200]),
                           [introspectReq])
                     else (case Decode env (Body_resp resp) of
                             Inl err \<Rightarrow> (Inl (WithStack err), [introspectReq])
                           | Inr i \<Rightarrow> (Inr i, [introspectReq]))))"

text \<open>Lines 126 to 130: the loop over \<^verbatim>\<open>cf.Audience\<close>.\<close>

fun check_audience ::
  "Runtime \<Rightarrow> string list \<Rightarrow> AuthenticatorOAuth2IntrospectionResult \<Rightarrow> error option" where
  "check_audience env [] i = None"
| "check_audience env (audience # rest) i =
     (if \<not> Has env (Audience_i i) audience
      then Some (WithStack (ErrForbidden
             (''Token audience is not intended for target audience '' @ audience)))
      else check_audience env rest i)"

text \<open>Lines 139 to 143: the loop over \<^verbatim>\<open>cf.Scopes\<close>, under a strategy.\<close>

fun check_scopes ::
  "ScopeStrategy \<Rightarrow> string list \<Rightarrow> AuthenticatorOAuth2IntrospectionResult \<Rightarrow> error option" where
  "check_scopes strategy [] i = None"
| "check_scopes strategy (scope # rest) i =
     (if \<not> strategy (Split (Scope_i i) CHR '' '') scope
      then Some (WithStack (ErrForbidden (''Scope '' @ scope @ '' was not granted'')))
      else check_scopes strategy rest i)"

text \<open>Lines 118 to 144: the checks on the decoded result, in the order of the source.\<close>

definition check_result ::
  "Runtime \<Rightarrow> ScopeStrategy option \<Rightarrow> AuthenticatorOAuth2IntrospectionConfiguration \<Rightarrow>
   AuthenticatorOAuth2IntrospectionResult \<Rightarrow> error option" where
  \<open>check_result env ss cf i =
     (if length (TokenType i) > 0 \<and> TokenType i \<noteq> ''access_token''
      then Some (WithStack (ErrForbidden
             (''Introspected token is not an access token but "'' @ TokenType i @ ''"'')))
      else if \<not> Active i
      then Some (WithStack (ErrUnauthorized ''Access token i says token is not active''))
      else (case check_audience env (Audience cf) i of
              Some err \<Rightarrow> Some err
            | None \<Rightarrow>
                if length (Issuers cf) > 0 \<and> \<not> Has env (Issuers cf) (Issuer i)
                then Some (WithStack (ErrForbidden
                       ''Token issuer does not match any trusted issuer''))
                else (case ss of
                        None \<Rightarrow> None
                      | Some strategy \<Rightarrow> check_scopes strategy (Scopes cf) i)))\<close>

text \<open>
  Lines 146 to 155: the extra claims, with the three injected keys, and the session as
  the two assignments leave it. \<^verbatim>\<open>len\<close> of a \<^verbatim>\<open>nil\<close> map is 0.
\<close>

definition inject_extra ::
  "AuthenticatorOAuth2IntrospectionResult \<Rightarrow> AuthenticatorOAuth2IntrospectionResult" where
  "inject_extra i =
     (let extra0 = (case Extra_i i of
                      None \<Rightarrow> Mapping.empty
                    | Some m \<Rightarrow> if Mapping.is_empty m then Mapping.empty else m);
          extra1 = Mapping.update ''username'' (VString (Username i)) extra0;
          extra2 = Mapping.update ''client_id'' (VString (ClientID_i i)) extra1;
          extra3 = Mapping.update ''scope'' (VString (Scope_i i)) extra2
      in i\<lparr>Extra_i := Some extra3\<rparr>)"

definition store_session ::
  "AuthenticatorOAuth2IntrospectionResult \<Rightarrow> AuthenticationSession \<Rightarrow> AuthenticationSession" where
  "store_session i session = session\<lparr>Subject := Subject_i i, Extra := Extra_i i\<rparr>"

text \<open>
  What a call of \<^verbatim>\<open>Authenticate\<close> leaves behind: the error it returns (\<open>None\<close> is
  \<^verbatim>\<open>nil\<close>), the session and the receiver its two pointers lead to afterwards, and the
  requests it sent.
\<close>

record AuthenticateReturn =
  returned :: "error option"
  session_after :: AuthenticationSession
  receiver_after :: AuthenticatorOAuth2Introspection
  requests_sent :: "http_request list"

text \<open>
  \<^verbatim>\<open>Authenticate\<close>. The rule, its fourth parameter, is bound to \<^verbatim>\<open>_\<close> in the source
  and is left out.
\<close>

definition Authenticate ::
  "Runtime \<Rightarrow> AuthenticatorOAuth2Introspection \<Rightarrow> http_request \<Rightarrow> AuthenticationSession \<Rightarrow>
   RawMessage \<Rightarrow> AuthenticateReturn" where
  "Authenticate env a r session config =
     (case Config env a config of
        (Inl err, a') \<Rightarrow>
          \<lparr>returned = Some err, session_after = session, receiver_after = a',
           requests_sent = []\<rparr>
      | (Inr cf, a') \<Rightarrow>
          (let token = BearerTokenFromRequest env r (BearerTokenLocation cf)
           in if token = []
              then \<lparr>returned = Some (WithStack ErrAuthenticatorNotResponsible),
                    session_after = session, receiver_after = a', requests_sent = []\<rparr>
              else
                (let ss = ToScopeStrategy (provider a') (ScopeStrategy cf)
                            ''authenticators.oauth2_introspection.scope_strategy''
                 in case introspect env a' cf ss token of
                      (Inl err, sent) \<Rightarrow>
                        \<lparr>returned = Some err, session_after = session, receiver_after = a',
                         requests_sent = sent\<rparr>
                    | (Inr i, sent) \<Rightarrow>
                        (case check_result env ss cf i of
                           Some err \<Rightarrow>
                             \<lparr>returned = Some err, session_after = session,
                              receiver_after = a', requests_sent = sent\<rparr>
                         | None \<Rightarrow>
                             \<lparr>returned = None,
                              session_after = store_session (inject_extra i) session,
                              receiver_after = a', requests_sent = sent\<rparr>))))"

subsection \<open>The provider's decode-and-validate call, from its description\<close>

text \<open>
  Modelled from the spec: \<^verbatim>\<open>configuration.Provider.AuthenticatorConfig\<close> is implemented
  in package \<^verbatim>\<open>driver/configuration\<close>, which is not among the sources; the file only calls
  it. The spec describes it as a generic authenticator-configuration decode/validate call
  keyed by authenticator identifier and raw bytes, and states two invariants of a valid
  configuration: the introspection URL must be a valid absolute URL, and if
  pre-authorization is enabled, token URL, client id, and client secret must be non-empty.
  The decoder of the raw bytes and the test for an absolute URL are parameters.
\<close>

definition AuthenticatorConfig_spec ::
  "(RawMessage \<Rightarrow> error + AuthenticatorOAuth2IntrospectionConfiguration) \<Rightarrow> (string \<Rightarrow> bool) \<Rightarrow>
   string \<Rightarrow> RawMessage \<Rightarrow> error + AuthenticatorOAuth2IntrospectionConfiguration" where
  "AuthenticatorConfig_spec decode absolute_url ident config =
     (case decode config of
        Inl err \<Rightarrow> Inl err
      | Inr c \<Rightarrow>
          if \<not> absolute_url (IntrospectionURL c)
          then Inl (Foreign ''introspection_url: not a valid absolute URL'')
          else (case PreAuth c of
                  None \<Rightarrow> Inr c
                | Some p \<Rightarrow>
                    if Enabled p \<and> (TokenURL p = [] \<or> ClientID p = [] \<or> ClientSecret p = [])
                    then Inl (Foreign ''pre_authorization: token_url, client_id and client_secret are required'')
                    else Inr c))"

subsection \<open>Test fixtures\<close>

text \<open>
  A concrete provider, runtime and network, for evaluating the methods on concrete inputs.
  The provider decodes five raw configurations; the network answers by the token in the
  form it receives.
\<close>

definition test_preauth :: AuthenticatorOAuth2IntrospectionPreAuthConfiguration where
  "test_preauth =
     \<lparr>Enabled = True, ClientID = ''proxy'', ClientSecret = ''s3cret'',
      Scope = [''introspect''], TokenURL = ''https://idp.example/token''\<rparr>"

definition test_config :: AuthenticatorOAuth2IntrospectionConfiguration where
  "test_config =
     \<lparr>Scopes = [''read''], Audience = [''api''], Issuers = [], PreAuth = None,
      ScopeStrategy = ''exact'', IntrospectionURL = ''https://idp.example/introspect'',
      BearerTokenLocation = None, IntrospectionRequestHeaders = [(''x-trace'', ''1'')],
      Retry = None\<rparr>"

definition raw_exact :: RawMessage where
  "raw_exact = ''exact.json''"

definition raw_none :: RawMessage where
  "raw_none = ''none.json''"

definition raw_preauth :: RawMessage where
  "raw_preauth = ''preauth.json''"

definition raw_bad_retry :: RawMessage where
  "raw_bad_retry = ''bad_retry.json''"

definition raw_no_client_id :: RawMessage where
  "raw_no_client_id = ''no_client_id.json''"

definition test_decode ::
  "RawMessage \<Rightarrow> error + AuthenticatorOAuth2IntrospectionConfiguration" where
  "test_decode config =
     (if config = raw_exact then Inr test_config
      else if config = raw_none then Inr (test_config\<lparr>ScopeStrategy := ''none''\<rparr>)
      else if config = raw_preauth then Inr (test_config\<lparr>PreAuth := Some test_preauth\<rparr>)
      else if config = raw_bad_retry
      then Inr (test_config\<lparr>PreAuth := Some test_preauth,
                  Retry := Some \<lparr>Timeout = ''soon'', MaxWait = []\<rparr>\<rparr>)
      else if config = raw_no_client_id
      then Inr (test_config\<lparr>PreAuth := Some (test_preauth\<lparr>ClientID := []\<rparr>)\<rparr>)
      else Inl (Foreign ''json: cannot unmarshal''))"

definition ExactScopeStrategy :: ScopeStrategy where
  "ExactScopeStrategy haystack needle = List.member haystack needle"

definition test_provider :: Provider where
  "test_provider =
     \<lparr>AuthenticatorConfig = (\<lambda>ident config. test_decode config),
      AuthenticatorIsEnabled = (\<lambda>ident. True),
      ToScopeStrategy = (\<lambda>name key. if name = ''exact'' then Some ExactScopeStrategy else None)\<rparr>"

definition test_authenticator :: AuthenticatorOAuth2Introspection where
  "test_authenticator =
     \<lparr>provider = test_provider,
      client = NewResilientClientLatencyToleranceSmall NilRoundTripper\<rparr>"

definition test_disabled_authenticator :: AuthenticatorOAuth2Introspection where
  "test_disabled_authenticator =
     test_authenticator\<lparr>provider := test_provider\<lparr>AuthenticatorIsEnabled := (\<lambda>ident. False)\<rparr>\<rparr>"

definition test_validating_authenticator :: AuthenticatorOAuth2Introspection where
  "test_validating_authenticator =
     test_authenticator\<lparr>provider := test_provider
       \<lparr>AuthenticatorConfig :=
          AuthenticatorConfig_spec test_decode (\<lambda>url. take 8 url = ''https://'')\<rparr>\<rparr>"

definition test_ParseDuration :: "string \<Rightarrow> error + Duration" where
  "test_ParseDuration s =
     (if s = ''500ms'' then Inr 500000000
      else if s = ''1s'' then Inr 1000000000
      else Inl (Foreign (''time: invalid duration '' @ s)))"

definition test_BearerTokenFromRequest ::
  "http_request \<Rightarrow> BearerTokenLocation option \<Rightarrow> string" where
  "test_BearerTokenFromRequest r location =
     (case Header r ''Authorization'' of
        None \<Rightarrow> []
      | Some vals \<Rightarrow>
          (case vals of
             [] \<Rightarrow> []
           | v # _ \<Rightarrow> if take 7 v = ''Bearer '' then drop 7 v else []))"

definition test_Encode :: "(string \<rightharpoonup> string list) \<Rightarrow> string" where
  "test_Encode v =
     (case v ''scope'' of None \<Rightarrow> [] | Some vals \<Rightarrow> ''scope='' @ Join vals '','' @ ''&'') @
     (case v ''token'' of None \<Rightarrow> [] | Some vals \<Rightarrow> ''token='' @ Join vals '','')"

definition test_NewRequest :: "string \<Rightarrow> string \<Rightarrow> string \<Rightarrow> error + http_request" where
  "test_NewRequest method url body =
     (if url = [] then Inl (Foreign ''parse: empty url'')
      else Inr \<lparr>Method = method, URL = url, Header = Map.empty, Body = body\<rparr>)"

definition result_u1 :: AuthenticatorOAuth2IntrospectionResult where
  "result_u1 =
     \<lparr>Active = True,
      Extra_i = Some (Mapping.update ''username'' (VString ''shadow'')
                       (Mapping.update ''tenant'' (VString ''t1'') Mapping.empty)),
      Subject_i = ''u1'', Username = ''alice'', Audience_i = [''api''], TokenType = [],
      Issuer = ''https://idp.example'', ClientID_i = ''web'', Scope_i = ''read write''\<rparr>"

definition test_Do :: "http_client \<Rightarrow> http_request \<Rightarrow> error + http_response" where
  "test_Do cl req =
     (let form = (if take 11 (Body req) = ''scope=read&'' then drop 11 (Body req) else Body req)
      in if form = ''token=abc''
         then Inr \<lparr>StatusCode = 200, Body_resp = ''u1''\<rparr>
         else if form = ''token=narrow''
         then Inr \<lparr>StatusCode = 200, Body_resp = ''u1 without read''\<rparr>
         else if form = ''token=expired''
         then Inr \<lparr>StatusCode = 200, Body_resp = ''inactive''\<rparr>
         else if form = ''token=refresh''
         then Inr \<lparr>StatusCode = 200, Body_resp = ''inactive refresh token''\<rparr>
         else Inr \<lparr>StatusCode = 500, Body_resp = []\<rparr>)"

definition test_Decode :: "string \<Rightarrow> error + AuthenticatorOAuth2IntrospectionResult" where
  "test_Decode body =
     (if body = ''u1'' then Inr result_u1
      else if body = ''u1 without read'' then Inr (result_u1\<lparr>Scope_i := ''write''\<rparr>)
      else if body = ''inactive''
      then Inr (result_u1\<lparr>Active := False, Extra_i := None\<rparr>)
      else if body = ''inactive refresh token''
      then Inr (result_u1\<lparr>Active := False, TokenType := ''refresh_token''\<rparr>)
      else Inl (Foreign ''unexpected end of JSON input''))"

definition test_runtime :: Runtime where
  "test_runtime =
     \<lparr>ParseDuration = test_ParseDuration,
      BearerTokenFromRequest = test_BearerTokenFromRequest,
      Encode = test_Encode,
      NewRequest = test_NewRequest,
      CanonicalMIMEHeaderKey = (\<lambda>key. if key = ''x-trace'' then ''X-Trace'' else key),
      Do = test_Do,
      Decode = test_Decode,
      Has = List.member\<rparr>"

definition test_request :: "string \<Rightarrow> http_request" where
  "test_request token =
     \<lparr>Method = ''GET'', URL = ''/orders'',
      Header = [''Authorization'' \<mapsto> [''Bearer '' @ token]], Body = []\<rparr>"

definition test_session :: AuthenticationSession where
  "test_session = \<lparr>Subject = ''nobody'', Extra = None\<rparr>"

section \<open>Properties\<close>

subsection \<open>Unfolding the fixtures and the methods\<close>

lemmas fixture_defs =
  test_runtime_def test_authenticator_def test_provider_def test_decode_def test_config_def
  test_preauth_def raw_exact_def raw_none_def raw_preauth_def raw_bad_retry_def
  raw_no_client_id_def test_ParseDuration_def test_BearerTokenFromRequest_def test_Encode_def
  test_NewRequest_def result_u1_def test_Do_def test_Decode_def test_request_def
  test_session_def ExactScopeStrategy_def test_disabled_authenticator_def
  test_validating_authenticator_def

lemmas method_defs =
  Authenticate_def Config_def Validate_def introspect_def set_headers_def check_result_def
  inject_extra_def store_session_def default_retry_def GetID_def
  NewErrAuthenticatorMisconfigured_def NewErrAuthenticatorNotEnabled_def Values_Add_def
  Header_Set_def Millisecond_def

subsection \<open>Validate on a disabled authenticator\<close>

text \<open>
  C9. For every raw configuration, malformed ones included, \<^verbatim>\<open>Validate\<close> on an
  authenticator whose type the provider reports as disabled returns the NotEnabled error,
  and never looks at the configuration: the receiver is left as it was.
\<close>

theorem Validate_not_enabled:
  assumes "\<not> AuthenticatorIsEnabled (provider a) (GetID a)"
  shows "Validate env a config = (Some (NewErrAuthenticatorNotEnabled a), a)"
  using assms by (simp add: Validate_def)

text \<open>
  The raw configuration \<open>''{''\<close> does not decode: the enabled fixture rejects it as
  misconfigured, the disabled one answers NotEnabled.
\<close>

theorem Validate_not_enabled_witness:
  "fst (Validate test_runtime test_authenticator ''{'') =
     Some (ErrAuthenticatorMisconfigured ''oauth2_introspection'' (Foreign ''json: cannot unmarshal''))
   \<and> Validate test_runtime test_disabled_authenticator ''{'' =
     (Some (ErrAuthenticatorNotEnabled ''oauth2_introspection''), test_disabled_authenticator)"
proof -
  have off: "\<not> AuthenticatorIsEnabled (provider test_disabled_authenticator)
               (GetID test_disabled_authenticator)"
    by (simp add: test_disabled_authenticator_def)
  have "fst (Validate test_runtime test_authenticator ''{'') =
     Some (ErrAuthenticatorMisconfigured ''oauth2_introspection'' (Foreign ''json: cannot unmarshal''))"
    by (simp add: fixture_defs method_defs)
  with Validate_not_enabled [OF off, of test_runtime "''{''"]
  show ?thesis
    by (simp add: NewErrAuthenticatorNotEnabled_def GetID_def)
qed

subsection \<open>No bearer token\<close>

text \<open>
  C8. When the configuration resolves and \<^verbatim>\<open>helper.BearerTokenFromRequest\<close> finds no token
  at the configured location, \<^verbatim>\<open>Authenticate\<close> returns
  \<^verbatim>\<open>ErrAuthenticatorNotResponsible\<close> (under \<^verbatim>\<open>errors.WithStack\<close>), sends nothing and
  leaves the session alone.
\<close>

theorem Authenticate_no_token:
  assumes "Config env a config = (Inr cf, a')"
    and "BearerTokenFromRequest env r (BearerTokenLocation cf) = []"
  shows "Authenticate env a r session config =
           \<lparr>returned = Some (WithStack ErrAuthenticatorNotResponsible),
            session_after = session, receiver_after = a', requests_sent = []\<rparr>"
  using assms by (simp add: Authenticate_def)

theorem Authenticate_no_token_witness:
  "Authenticate test_runtime test_authenticator
     \<lparr>Method = ''GET'', URL = ''/orders'', Header = Map.empty, Body = []\<rparr> test_session raw_exact =
   \<lparr>returned = Some (WithStack ErrAuthenticatorNotResponsible),
    session_after = test_session, receiver_after = test_authenticator, requests_sent = []\<rparr>"
proof -
  have cfg: "Config test_runtime test_authenticator raw_exact = (Inr test_config, test_authenticator)"
    by (simp add: fixture_defs method_defs)
  have tok: "BearerTokenFromRequest test_runtime
               \<lparr>Method = ''GET'', URL = ''/orders'', Header = Map.empty, Body = []\<rparr>
               (BearerTokenLocation test_config) = []"
    by (simp add: fixture_defs)
  show ?thesis
    using Authenticate_no_token [OF cfg tok] .
qed

subsection \<open>The session on the failure paths\<close>

text \<open>
  C10. Whenever \<^verbatim>\<open>Authenticate\<close> returns an error, be it NotResponsible, a configuration
  error, a transport or decoding error, Unauthorized or Forbidden, the session is what it
  was on entry, subject and extra claims alike.
\<close>

theorem Authenticate_failure_keeps_session:
  assumes "returned (Authenticate env a r session config) \<noteq> None"
  shows "session_after (Authenticate env a r session config) = session"
proof (cases "Config env a config")
  case (Pair res a')
  show ?thesis
  proof (cases res)
    case (Inl err)
    with Pair show ?thesis by (simp add: Authenticate_def)
  next
    case (Inr cf)
    with Pair assms show ?thesis
      by (auto simp: Authenticate_def Let_def split: prod.splits sum.splits option.splits if_splits)
  qed
qed

theorem Authenticate_failure_keeps_session_witness:
  "returned (Authenticate test_runtime test_authenticator (test_request ''narrow'') test_session raw_exact)
     = Some (WithStack (ErrForbidden ''Scope read was not granted''))
   \<and> session_after (Authenticate test_runtime test_authenticator (test_request ''narrow'') test_session raw_exact)
     = test_session"
proof -
  have ret: "returned (Authenticate test_runtime test_authenticator (test_request ''narrow'') test_session raw_exact)
     = Some (WithStack (ErrForbidden ''Scope read was not granted''))"
    by (simp add: fixture_defs method_defs)
  then have "returned (Authenticate test_runtime test_authenticator (test_request ''narrow'') test_session raw_exact) \<noteq> None"
    by simp
  from Authenticate_failure_keeps_session [OF this] ret show ?thesis by simp
qed

subsection \<open>Config: what it returns and what it leaves in the receiver\<close>

lemma Config_decode_error:
  assumes "AuthenticatorConfig (provider a) (GetID a) config = Inl err"
  shows "Config env a config = (Inl (ErrAuthenticatorMisconfigured (GetID a) err), a)"
  using assms by (simp add: Config_def NewErrAuthenticatorMisconfigured_def)

lemma Config_without_preauth:
  assumes "AuthenticatorConfig (provider a) (GetID a) config = Inr c"
    and "PreAuth c = None \<or> (\<exists>p. PreAuth c = Some p \<and> \<not> Enabled p)"
  shows "Config env a config = (Inr c, a)"
  using assms by (auto simp: Config_def)

lemma Config_with_preauth:
  assumes "AuthenticatorConfig (provider a) (GetID a) config = Inr c"
    and "PreAuth c = Some p" and "Enabled p"
  shows "Config env a config =
           (case ParseDuration env (Timeout (default_retry (Retry c))) of
              Inl err \<Rightarrow> (Inl err, a)
            | Inr duration \<Rightarrow>
                (case ParseDuration env (MaxWait (default_retry (Retry c))) of
                   Inl err \<Rightarrow> (Inl err, a)
                 | Inr maxWait \<Rightarrow>
                     (Inr (c\<lparr>Retry := Some (default_retry (Retry c))\<rparr>),
                      a\<lparr>client :=
                          NewResilientClientLatencyToleranceConfigurable
                            (ClientCredentialsTransport
                               (ClientID p) (ClientSecret p) (Scope p) (TokenURL p))
                            (Millisecond * duration) maxWait\<rparr>)))"
  using assms by (simp add: Config_def Let_def split: sum.splits)

lemma Config_provider: "provider (snd (Config env a config)) = provider a"
  by (simp add: Config_def Let_def split: sum.splits option.splits)

lemma Config_preauth_kept:
  assumes "Config env a config = (Inr cf, a')"
  shows "\<exists>c. AuthenticatorConfig (provider a) (GetID a) config = Inr c \<and> PreAuth cf = PreAuth c"
  using assms
  by (auto simp: Config_def Let_def split: sum.splits option.splits if_splits)

text \<open>
  C2. With pre-authorization enabled and no retry block, \<^verbatim>\<open>Config\<close> resolves the two
  duration strings to \<open>''500ms''\<close> and \<open>''1s''\<close>, and hands the configurable client
  \<^verbatim>\<open>time.Millisecond * duration\<close> as its first duration: for the 500000000 nanoseconds
  that \<^verbatim>\<open>time.ParseDuration\<close> reads in \<open>''500ms''\<close> that is 500000000000000 nanoseconds
  (500000 seconds), not 500 milliseconds. The maximum wait is passed as parsed, one second.
\<close>

theorem Config_default_retry_scaled:
  assumes "AuthenticatorConfig (provider a) (GetID a) config = Inr c"
    and "PreAuth c = Some p" and "Enabled p" and "Retry c = None"
    and "ParseDuration env ''500ms'' = Inr 500000000"
    and "ParseDuration env ''1s'' = Inr 1000000000"
  shows "Config env a config =
           (Inr (c\<lparr>Retry := Some \<lparr>Timeout = ''500ms'', MaxWait = ''1s''\<rparr>\<rparr>),
            a\<lparr>client :=
                NewResilientClientLatencyToleranceConfigurable
                  (ClientCredentialsTransport (ClientID p) (ClientSecret p) (Scope p) (TokenURL p))
                  500000000000000 1000000000\<rparr>)"
  using assms Config_with_preauth [OF assms(1,2,3), of env]
  by (simp add: default_retry_def Millisecond_def)

theorem Config_default_retry_scaled_witness:
  "client (snd (Config test_runtime test_authenticator raw_preauth)) =
     NewResilientClientLatencyToleranceConfigurable
       (ClientCredentialsTransport ''proxy'' ''s3cret'' [''introspect''] ''https://idp.example/token'')
       500000000000000 1000000000
   \<and> sint (500000000000000 :: Duration) = 1000000 * 500000000
   \<and> (500000000000000 :: Duration) \<noteq> 500000000"
proof -
  have dec: "AuthenticatorConfig (provider test_authenticator) (GetID test_authenticator) raw_preauth
               = Inr (test_config\<lparr>PreAuth := Some test_preauth\<rparr>)"
    by (simp add: fixture_defs)
  have pre: "PreAuth (test_config\<lparr>PreAuth := Some test_preauth\<rparr>) = Some test_preauth"
    by simp
  have en: "Enabled test_preauth"
    by (simp add: test_preauth_def)
  have nr: "Retry (test_config\<lparr>PreAuth := Some test_preauth\<rparr>) = None"
    by (simp add: test_config_def)
  have p1: "ParseDuration test_runtime ''500ms'' = Inr 500000000"
    by (simp add: test_runtime_def test_ParseDuration_def)
  have p2: "ParseDuration test_runtime ''1s'' = Inr 1000000000"
    by (simp add: test_runtime_def test_ParseDuration_def)
  show ?thesis
    using Config_default_retry_scaled [OF dec pre en nr p1 p2]
    by (simp add: test_preauth_def)
qed

text \<open>
  C3, as the code has it. \<^verbatim>\<open>Config\<close> never changes the provider of the receiver. It
  leaves the stored client as it was when it returns an error and when pre-authorization is
  absent or disabled. When pre-authorization is enabled and both retry durations parse, it
  replaces the stored client by a configurable resilient client over a client-credentials
  transport made from the pre-authorization settings, with the durations as resolved.
\<close>

theorem Config_receiver:
  "provider (snd (Config env a config)) = provider a
   \<and> (\<forall>err a'. Config env a config = (Inl err, a') \<longrightarrow> a' = a)
   \<and> (\<forall>cf a'. Config env a config = (Inr cf, a') \<and>
         (PreAuth cf = None \<or> (\<exists>p. PreAuth cf = Some p \<and> \<not> Enabled p)) \<longrightarrow> a' = a)
   \<and> (\<forall>cf a' p. Config env a config = (Inr cf, a') \<and> PreAuth cf = Some p \<and> Enabled p \<longrightarrow>
         (\<exists>retry duration maxWait.
            Retry cf = Some retry
            \<and> ParseDuration env (Timeout retry) = Inr duration
            \<and> ParseDuration env (MaxWait retry) = Inr maxWait
            \<and> a' = a\<lparr>client :=
                      NewResilientClientLatencyToleranceConfigurable
                        (ClientCredentialsTransport
                           (ClientID p) (ClientSecret p) (Scope p) (TokenURL p))
                        (Millisecond * duration) maxWait\<rparr>))"
proof (intro conjI allI impI)
  show "provider (snd (Config env a config)) = provider a"
    by (rule Config_provider)
next
  fix err a'
  assume "Config env a config = (Inl err, a')"
  then show "a' = a"
    by (auto simp: Config_def Let_def split: sum.splits option.splits if_splits)
next
  fix cf a'
  assume "Config env a config = (Inr cf, a') \<and>
          (PreAuth cf = None \<or> (\<exists>p. PreAuth cf = Some p \<and> \<not> Enabled p))"
  then show "a' = a"
    by (auto simp: Config_def Let_def split: sum.splits option.splits if_splits)
next
  fix cf a' p
  assume h: "Config env a config = (Inr cf, a') \<and> PreAuth cf = Some p \<and> Enabled p"
  then obtain c where c: "AuthenticatorConfig (provider a) (GetID a) config = Inr c"
    and "PreAuth cf = PreAuth c"
    using Config_preauth_kept by blast
  with h have pc: "PreAuth c = Some p" and en: "Enabled p"
    by simp_all
  from h Config_with_preauth [OF c pc en, of env]
  show "\<exists>retry duration maxWait.
            Retry cf = Some retry
            \<and> ParseDuration env (Timeout retry) = Inr duration
            \<and> ParseDuration env (MaxWait retry) = Inr maxWait
            \<and> a' = a\<lparr>client :=
                      NewResilientClientLatencyToleranceConfigurable
                        (ClientCredentialsTransport
                           (ClientID p) (ClientSecret p) (Scope p) (TokenURL p))
                        (Millisecond * duration) maxWait\<rparr>"
    by (auto split: sum.splits)
qed

theorem Config_receiver_witness:
  "snd (Config test_runtime test_authenticator ''{'') = test_authenticator
   \<and> snd (Config test_runtime test_authenticator raw_bad_retry) = test_authenticator
   \<and> snd (Config test_runtime test_authenticator raw_exact) = test_authenticator
   \<and> snd (Config test_runtime test_authenticator raw_preauth) =
       test_authenticator\<lparr>client :=
         NewResilientClientLatencyToleranceConfigurable
           (ClientCredentialsTransport ''proxy'' ''s3cret'' [''introspect''] ''https://idp.example/token'')
           500000000000000 1000000000\<rparr>"
proof -
  have e1: "Config test_runtime test_authenticator ''{'' =
              (Inl (ErrAuthenticatorMisconfigured ''oauth2_introspection'' (Foreign ''json: cannot unmarshal'')),
               snd (Config test_runtime test_authenticator ''{''))"
    by (simp add: fixture_defs method_defs)
  have e2: "Config test_runtime test_authenticator raw_bad_retry =
              (Inl (Foreign ''time: invalid duration soon''),
               snd (Config test_runtime test_authenticator raw_bad_retry))"
    by (simp add: fixture_defs method_defs)
  have e3: "Config test_runtime test_authenticator raw_exact =
              (Inr test_config, snd (Config test_runtime test_authenticator raw_exact))
            \<and> PreAuth test_config = None"
    by (simp add: fixture_defs method_defs)
  have e4: "Config test_runtime test_authenticator raw_preauth =
              (Inr (test_config\<lparr>PreAuth := Some test_preauth,
                      Retry := Some \<lparr>Timeout = ''500ms'', MaxWait = ''1s''\<rparr>\<rparr>),
               snd (Config test_runtime test_authenticator raw_preauth))
            \<and> PreAuth (test_config\<lparr>PreAuth := Some test_preauth,
                      Retry := Some \<lparr>Timeout = ''500ms'', MaxWait = ''1s''\<rparr>\<rparr>) = Some test_preauth
            \<and> Enabled test_preauth"
    by (simp add: fixture_defs method_defs)
  have p: "ParseDuration test_runtime ''500ms'' = Inr 500000000
           \<and> ParseDuration test_runtime ''1s'' = Inr 1000000000"
    by (simp add: test_runtime_def test_ParseDuration_def)
  note r1 = Config_receiver [of test_runtime test_authenticator "''{''"]
  note r2 = Config_receiver [of test_runtime test_authenticator raw_bad_retry]
  note r3 = Config_receiver [of test_runtime test_authenticator raw_exact]
  note r4 = Config_receiver [of test_runtime test_authenticator raw_preauth]
  have a1: "snd (Config test_runtime test_authenticator ''{'') = test_authenticator"
    using r1 e1 by blast
  have a2: "snd (Config test_runtime test_authenticator raw_bad_retry) = test_authenticator"
    using r2 e2 by blast
  have a3: "snd (Config test_runtime test_authenticator raw_exact) = test_authenticator"
    using r3 e3 by blast
  from r4 e4 obtain retry duration maxWait where
    "Retry (test_config\<lparr>PreAuth := Some test_preauth,
              Retry := Some \<lparr>Timeout = ''500ms'', MaxWait = ''1s''\<rparr>\<rparr>) = Some retry"
    "ParseDuration test_runtime (Timeout retry) = Inr duration"
    "ParseDuration test_runtime (MaxWait retry) = Inr maxWait"
    "snd (Config test_runtime test_authenticator raw_preauth) =
       test_authenticator\<lparr>client :=
         NewResilientClientLatencyToleranceConfigurable
           (ClientCredentialsTransport (ClientID test_preauth) (ClientSecret test_preauth)
              (Scope test_preauth) (TokenURL test_preauth))
           (Millisecond * duration) maxWait\<rparr>"
    by blast
  with p have a4: "snd (Config test_runtime test_authenticator raw_preauth) =
       test_authenticator\<lparr>client :=
         NewResilientClientLatencyToleranceConfigurable
           (ClientCredentialsTransport ''proxy'' ''s3cret'' [''introspect''] ''https://idp.example/token'')
           500000000000000 1000000000\<rparr>"
    by (auto simp: test_preauth_def Millisecond_def)
  from a1 a2 a3 a4 show ?thesis by simp
qed

text \<open>
  The claim as the spec words it fails on the fixture: resolving a configuration with
  pre-authorization enabled replaces the client the authenticator holds.
\<close>

theorem Config_receiver_counterexample:
  "client test_authenticator = NewResilientClientLatencyToleranceSmall NilRoundTripper
   \<and> client (snd (Config test_runtime test_authenticator raw_preauth)) =
       NewResilientClientLatencyToleranceConfigurable
         (ClientCredentialsTransport ''proxy'' ''s3cret'' [''introspect''] ''https://idp.example/token'')
         500000000000000 1000000000
   \<and> snd (Config test_runtime test_authenticator raw_preauth) \<noteq> test_authenticator"
  by (simp add: fixture_defs method_defs)

text \<open>
  C4. With pre-authorization enabled, a retry duration that \<^verbatim>\<open>time.ParseDuration\<close> rejects
  (after the defaults for blank strings are in) makes \<^verbatim>\<open>Config\<close> fail, and the error it
  returns is the very error of \<^verbatim>\<open>time.ParseDuration\<close>: lines 188 and 194 return
  \<^verbatim>\<open>err\<close> as it is, where line 172 wraps the decoding error with
  \<^verbatim>\<open>NewErrAuthenticatorMisconfigured\<close>. The receiver is left as it was.
\<close>

theorem Config_unparsable_retry_unwrapped:
  assumes "AuthenticatorConfig (provider a) (GetID a) config = Inr c"
    and "PreAuth c = Some p" and "Enabled p"
    and "ParseDuration env (Timeout (default_retry (Retry c))) = Inl err
         \<or> (\<exists>duration. ParseDuration env (Timeout (default_retry (Retry c))) = Inr duration)
           \<and> ParseDuration env (MaxWait (default_retry (Retry c))) = Inl err"
  shows "Config env a config = (Inl err, a)"
  using assms(4) Config_with_preauth [OF assms(1,2,3), of env]
  by auto

theorem Config_unparsable_retry_unwrapped_witness:
  "Config test_runtime test_authenticator raw_bad_retry =
     (Inl (Foreign ''time: invalid duration soon''), test_authenticator)
   \<and> (\<forall>ident err. Foreign ''time: invalid duration soon'' \<noteq> ErrAuthenticatorMisconfigured ident err)"
proof -
  have dec: "AuthenticatorConfig (provider test_authenticator) (GetID test_authenticator) raw_bad_retry
               = Inr (test_config\<lparr>PreAuth := Some test_preauth,
                        Retry := Some \<lparr>Timeout = ''soon'', MaxWait = []\<rparr>\<rparr>)"
    by (simp add: fixture_defs)
  have pre: "PreAuth (test_config\<lparr>PreAuth := Some test_preauth,
                        Retry := Some \<lparr>Timeout = ''soon'', MaxWait = []\<rparr>\<rparr>) = Some test_preauth"
    by simp
  have en: "Enabled test_preauth"
    by (simp add: test_preauth_def)
  have bad: "ParseDuration test_runtime
               (Timeout (default_retry (Retry (test_config\<lparr>PreAuth := Some test_preauth,
                        Retry := Some \<lparr>Timeout = ''soon'', MaxWait = []\<rparr>\<rparr>))))
             = Inl (Foreign ''time: invalid duration soon'')"
    by (simp add: default_retry_def test_runtime_def test_ParseDuration_def)
  from bad have either: "ParseDuration test_runtime
               (Timeout (default_retry (Retry (test_config\<lparr>PreAuth := Some test_preauth,
                        Retry := Some \<lparr>Timeout = ''soon'', MaxWait = []\<rparr>\<rparr>))))
             = Inl (Foreign ''time: invalid duration soon'')
         \<or> (\<exists>duration. ParseDuration test_runtime
               (Timeout (default_retry (Retry (test_config\<lparr>PreAuth := Some test_preauth,
                        Retry := Some \<lparr>Timeout = ''soon'', MaxWait = []\<rparr>\<rparr>)))) = Inr duration)
           \<and> ParseDuration test_runtime
               (MaxWait (default_retry (Retry (test_config\<lparr>PreAuth := Some test_preauth,
                        Retry := Some \<lparr>Timeout = ''soon'', MaxWait = []\<rparr>\<rparr>))))
             = Inl (Foreign ''time: invalid duration soon'')"
    by (rule disjI1)
  show ?thesis
    using Config_unparsable_retry_unwrapped [OF dec pre en either]
    by simp
qed

subsection \<open>Pre-authorization settings, under the validation the spec describes\<close>

text \<open>
  C5. Under a provider whose decode-and-validate call is as the spec describes it
  (\<open>AuthenticatorConfig_spec\<close>), a configuration with pre-authorization enabled and an
  empty token URL, client id or client secret makes \<^verbatim>\<open>Config\<close> fail with the
  Misconfigured error, leaving the receiver alone, and makes \<^verbatim>\<open>Validate\<close> return an
  error.
\<close>

theorem Config_rejects_incomplete_preauth:
  assumes "AuthenticatorConfig (provider a) = AuthenticatorConfig_spec decode absolute_url"
    and "decode config = Inr c"
    and "PreAuth c = Some p" and "Enabled p"
    and "TokenURL p = [] \<or> ClientID p = [] \<or> ClientSecret p = []"
  shows "(\<exists>err. Config env a config = (Inl (ErrAuthenticatorMisconfigured (GetID a) err), a))
         \<and> (\<exists>err. Validate env a config = (Some err, a))"
proof -
  from assms have "\<exists>err. AuthenticatorConfig (provider a) (GetID a) config = Inl err"
    by (auto simp: AuthenticatorConfig_spec_def)
  then obtain err where
    "AuthenticatorConfig (provider a) (GetID a) config = Inl err" ..
  then have cfg: "Config env a config = (Inl (ErrAuthenticatorMisconfigured (GetID a) err), a)"
    by (rule Config_decode_error)
  then have "\<exists>e. Validate env a config = (Some e, a)"
    by (simp add: Validate_def)
  with cfg show ?thesis by blast
qed

theorem Config_rejects_incomplete_preauth_witness:
  "Config test_runtime test_validating_authenticator raw_no_client_id =
     (Inl (ErrAuthenticatorMisconfigured ''oauth2_introspection''
            (Foreign ''pre_authorization: token_url, client_id and client_secret are required'')),
      test_validating_authenticator)
   \<and> fst (Validate test_runtime test_validating_authenticator raw_no_client_id) =
       Some (ErrAuthenticatorMisconfigured ''oauth2_introspection''
            (Foreign ''pre_authorization: token_url, client_id and client_secret are required''))
   \<and> fst (Validate test_runtime test_validating_authenticator raw_preauth) = None"
proof -
  have prov: "AuthenticatorConfig (provider test_validating_authenticator) =
                AuthenticatorConfig_spec test_decode (\<lambda>url. take 8 url = ''https://'')"
    by (simp add: test_validating_authenticator_def test_authenticator_def)
  have dec: "test_decode raw_no_client_id =
               Inr (test_config\<lparr>PreAuth := Some (test_preauth\<lparr>ClientID := []\<rparr>)\<rparr>)"
    by (simp add: fixture_defs)
  have pre: "PreAuth (test_config\<lparr>PreAuth := Some (test_preauth\<lparr>ClientID := []\<rparr>)\<rparr>)
               = Some (test_preauth\<lparr>ClientID := []\<rparr>)"
    by simp
  have en: "Enabled (test_preauth\<lparr>ClientID := []\<rparr>)"
    by (simp add: test_preauth_def)
  have empty: "TokenURL (test_preauth\<lparr>ClientID := []\<rparr>) = []
               \<or> ClientID (test_preauth\<lparr>ClientID := []\<rparr>) = []
               \<or> ClientSecret (test_preauth\<lparr>ClientID := []\<rparr>) = []"
    by simp
  have run: "Config test_runtime test_validating_authenticator raw_no_client_id =
     (Inl (ErrAuthenticatorMisconfigured ''oauth2_introspection''
            (Foreign ''pre_authorization: token_url, client_id and client_secret are required'')),
      test_validating_authenticator)"
    by (simp add: fixture_defs method_defs AuthenticatorConfig_spec_def)
  have ok: "fst (Validate test_runtime test_validating_authenticator raw_preauth) = None"
    by (simp add: fixture_defs method_defs AuthenticatorConfig_spec_def)
  from Config_rejects_incomplete_preauth [OF prov dec pre en empty, of test_runtime] run ok
  show ?thesis
    by (auto simp: Validate_def)
qed

subsection \<open>The checks on the introspection result\<close>

lemma check_audience_passes:
  "check_audience env auds i = None \<longleftrightarrow> list_all (Has env (Audience_i i)) auds"
  by (induction auds) auto

lemma check_scopes_passes:
  "check_scopes strategy scopes i = None \<longleftrightarrow>
     list_all (strategy (Split (Scope_i i) CHR '' '')) scopes"
  by (induction scopes) auto

lemma check_scopes_fails:
  assumes "\<not> list_all (strategy (Split (Scope_i i) CHR '' '')) scopes"
  shows "\<exists>scope \<in> set scopes.
           \<not> strategy (Split (Scope_i i) CHR '' '') scope
           \<and> check_scopes strategy scopes i =
               Some (WithStack (ErrForbidden (''Scope '' @ scope @ '' was not granted'')))"
  using assms by (induction scopes) auto

lemma Authenticate_checked:
  assumes "Config env a config = (Inr cf, a')"
    and "BearerTokenFromRequest env r (BearerTokenLocation cf) = token" and "token \<noteq> []"
    and "ToScopeStrategy (provider a') (ScopeStrategy cf)
           ''authenticators.oauth2_introspection.scope_strategy'' = ss"
    and "introspect env a' cf ss token = (Inr i, sent)"
  shows "returned (Authenticate env a r session config) = check_result env ss cf i"
    and "requests_sent (Authenticate env a r session config) = sent"
  using assms by (auto simp: Authenticate_def split: option.splits)

lemma Authenticate_sent:
  assumes "Config env a config = (Inr cf, a')"
    and "BearerTokenFromRequest env r (BearerTokenLocation cf) = token" and "token \<noteq> []"
    and "ToScopeStrategy (provider a') (ScopeStrategy cf)
           ''authenticators.oauth2_introspection.scope_strategy'' = ss"
  shows "requests_sent (Authenticate env a r session config) =
           snd (introspect env a' cf ss token)"
  using assms by (auto simp: Authenticate_def split: prod.splits sum.splits option.splits)

lemma introspect_sent:
  "snd (introspect env a cf ss token) =
     (case NewRequest env ''POST'' (IntrospectionURL cf)
             (Encode env (case ss of
                            None \<Rightarrow> [''token'' \<mapsto> [token], ''scope'' \<mapsto> [Join (Scopes cf) '' '']]
                          | Some _ \<Rightarrow> [''token'' \<mapsto> [token]])) of
        Inl err \<Rightarrow> []
      | Inr req \<Rightarrow> [set_headers env cf req])"
  by (auto simp: introspect_def Values_Add_def Let_def split: sum.splits option.splits)

text \<open>
  C1, as the code has it. When the decoded result has \<^verbatim>\<open>active\<close> false and its token type
  is empty or \<open>''access_token''\<close>, \<^verbatim>\<open>Authenticate\<close> returns the Unauthorized error,
  whatever the audience, the issuer, the scope and the other fields of the result and
  whatever the configuration requires of them.
\<close>

theorem Authenticate_inactive_unauthorized:
  assumes "Config env a config = (Inr cf, a')"
    and "BearerTokenFromRequest env r (BearerTokenLocation cf) = token" and "token \<noteq> []"
    and "ToScopeStrategy (provider a') (ScopeStrategy cf)
           ''authenticators.oauth2_introspection.scope_strategy'' = ss"
    and "introspect env a' cf ss token = (Inr i, sent)"
    and "\<not> Active i"
    and "TokenType i = [] \<or> TokenType i = ''access_token''"
  shows "returned (Authenticate env a r session config) =
           Some (WithStack (ErrUnauthorized ''Access token i says token is not active''))"
proof -
  have "returned (Authenticate env a r session config) = check_result env ss cf i"
    using assms(1-5) by (rule Authenticate_checked)
  with assms(6,7) show ?thesis
    by (auto simp: check_result_def)
qed

theorem Authenticate_inactive_unauthorized_witness:
  "fst (introspect test_runtime test_authenticator test_config (Some ExactScopeStrategy) ''expired'')
     = Inr (result_u1\<lparr>Active := False, Extra_i := None\<rparr>)
   \<and> returned (Authenticate test_runtime test_authenticator (test_request ''expired'') test_session raw_exact)
     = Some (WithStack (ErrUnauthorized ''Access token i says token is not active''))"
proof -
  have cfg: "Config test_runtime test_authenticator raw_exact = (Inr test_config, test_authenticator)"
    by (simp add: fixture_defs method_defs)
  have tok: "BearerTokenFromRequest test_runtime (test_request ''expired'')
               (BearerTokenLocation test_config) = ''expired''"
    by (simp add: fixture_defs)
  have ne: "''expired'' \<noteq> []" by simp
  have ss: "ToScopeStrategy (provider test_authenticator) (ScopeStrategy test_config)
              ''authenticators.oauth2_introspection.scope_strategy'' = Some ExactScopeStrategy"
    by (simp add: test_authenticator_def test_provider_def test_config_def)
  have dec: "fst (introspect test_runtime test_authenticator test_config (Some ExactScopeStrategy) ''expired'')
     = Inr (result_u1\<lparr>Active := False, Extra_i := None\<rparr>)"
    by (simp add: fixture_defs method_defs)
  then have res: "introspect test_runtime test_authenticator test_config (Some ExactScopeStrategy) ''expired''
     = (Inr (result_u1\<lparr>Active := False, Extra_i := None\<rparr>),
        snd (introspect test_runtime test_authenticator test_config (Some ExactScopeStrategy) ''expired''))"
    by (metis prod.collapse)
  have off: "\<not> Active (result_u1\<lparr>Active := False, Extra_i := None\<rparr>)"
    by simp
  have ty: "TokenType (result_u1\<lparr>Active := False, Extra_i := None\<rparr>) = []
            \<or> TokenType (result_u1\<lparr>Active := False, Extra_i := None\<rparr>) = ''access_token''"
    by (simp add: result_u1_def)
  from Authenticate_inactive_unauthorized [OF cfg tok ne ss res off ty, of test_session] dec
  show ?thesis by simp
qed

text \<open>
  The claim as the spec words it fails on the fixture: the token type is checked before
  the active flag, so an inactive token of type \<open>''refresh_token''\<close> is answered with
  Forbidden.
\<close>

theorem Authenticate_inactive_counterexample:
  \<open>fst (introspect test_runtime test_authenticator test_config (Some ExactScopeStrategy) ''refresh'')
     = Inr (result_u1\<lparr>Active := False, TokenType := ''refresh_token''\<rparr>)
   \<and> Active (result_u1\<lparr>Active := False, TokenType := ''refresh_token''\<rparr>) = False
   \<and> returned (Authenticate test_runtime test_authenticator (test_request ''refresh'') test_session raw_exact)
     = Some (WithStack (ErrForbidden ''Introspected token is not an access token but "refresh_token"''))\<close>
  by (simp add: fixture_defs method_defs)

subsection \<open>Scopes: sent to the endpoint or checked on the answer\<close>

lemma check_result_without_strategy:
  assumes "TokenType i = [] \<or> TokenType i = ''access_token''" and "Active i"
    and "list_all (Has env (Audience_i i)) (Audience cf)"
    and "Issuers cf = [] \<or> Has env (Issuers cf) (Issuer i)"
  shows "check_result env None cf i = None"
proof -
  from assms(3) have "check_audience env (Audience cf) i = None"
    by (simp add: check_audience_passes)
  with assms(1,2,4) show ?thesis
    by (auto simp: check_result_def)
qed

lemma check_result_with_strategy:
  assumes "TokenType i = [] \<or> TokenType i = ''access_token''" and "Active i"
    and "list_all (Has env (Audience_i i)) (Audience cf)"
    and "Issuers cf = [] \<or> Has env (Issuers cf) (Issuer i)"
  shows "check_result env (Some strategy) cf i = check_scopes strategy (Scopes cf) i"
proof -
  from assms(3) have "check_audience env (Audience cf) i = None"
    by (simp add: check_audience_passes)
  with assms(1,2,4) show ?thesis
    by (auto simp: check_result_def)
qed

lemma check_result_success_scopes:
  assumes "check_result env (Some strategy) cf i = None"
  shows "list_all (strategy (Split (Scope_i i) CHR '' '')) (Scopes cf)"
  using assms
  by (auto simp: check_result_def check_scopes_passes split: if_splits option.splits)

text \<open>
  C6. Let the configuration resolve and the request carry a token. When the provider
  resolves the scope strategy to \<^verbatim>\<open>nil\<close>, the one request sent is built from the form with
  the fields \<open>token\<close> and \<open>scope\<close>, the latter the required scopes joined by spaces, and
  a result that passes the token-type, active, audience and issuer checks is a success
  whatever scopes it grants. When the provider resolves a strategy, the form has the field
  \<open>token\<close> only; a success implies that every required scope passes the strategy against
  the granted scope string split at spaces, and a result that passes the earlier checks
  while some required scope fails is answered with Forbidden, naming a failing scope.
\<close>

theorem Authenticate_scope_round_trip:
  assumes "Config env a config = (Inr cf, a')"
    and "BearerTokenFromRequest env r (BearerTokenLocation cf) = token" and "token \<noteq> []"
    and "ToScopeStrategy (provider a') (ScopeStrategy cf)
           ''authenticators.oauth2_introspection.scope_strategy'' = ss"
  shows "(ss = None \<longrightarrow>
            requests_sent (Authenticate env a r session config) =
              (case NewRequest env ''POST'' (IntrospectionURL cf)
                      (Encode env [''token'' \<mapsto> [token],
                                   ''scope'' \<mapsto> [Join (Scopes cf) '' '']]) of
                 Inl err \<Rightarrow> []
               | Inr req \<Rightarrow> [set_headers env cf req])
          \<and> (\<forall>i sent.
                introspect env a' cf ss token = (Inr i, sent)
                \<and> (TokenType i = [] \<or> TokenType i = ''access_token'') \<and> Active i
                \<and> list_all (Has env (Audience_i i)) (Audience cf)
                \<and> (Issuers cf = [] \<or> Has env (Issuers cf) (Issuer i))
                \<longrightarrow> returned (Authenticate env a r session config) = None))
       \<and> (\<forall>strategy. ss = Some strategy \<longrightarrow>
            requests_sent (Authenticate env a r session config) =
              (case NewRequest env ''POST'' (IntrospectionURL cf)
                      (Encode env [''token'' \<mapsto> [token]]) of
                 Inl err \<Rightarrow> []
               | Inr req \<Rightarrow> [set_headers env cf req])
          \<and> (\<forall>i sent.
                introspect env a' cf ss token = (Inr i, sent) \<longrightarrow>
                  (returned (Authenticate env a r session config) = None \<longrightarrow>
                     list_all (strategy (Split (Scope_i i) CHR '' '')) (Scopes cf))
                \<and> ((TokenType i = [] \<or> TokenType i = ''access_token'') \<and> Active i
                   \<and> list_all (Has env (Audience_i i)) (Audience cf)
                   \<and> (Issuers cf = [] \<or> Has env (Issuers cf) (Issuer i))
                   \<and> \<not> list_all (strategy (Split (Scope_i i) CHR '' '')) (Scopes cf)
                   \<longrightarrow> (\<exists>scope \<in> set (Scopes cf).
                          \<not> strategy (Split (Scope_i i) CHR '' '') scope
                          \<and> returned (Authenticate env a r session config) =
                              Some (WithStack (ErrForbidden
                                     (''Scope '' @ scope @ '' was not granted'')))))))"
proof (intro conjI allI impI)
  assume none: "ss = None"
  show "requests_sent (Authenticate env a r session config) =
              (case NewRequest env ''POST'' (IntrospectionURL cf)
                      (Encode env [''token'' \<mapsto> [token],
                                   ''scope'' \<mapsto> [Join (Scopes cf) '' '']]) of
                 Inl err \<Rightarrow> []
               | Inr req \<Rightarrow> [set_headers env cf req])"
    using Authenticate_sent [OF assms, of session] none
    by (simp add: introspect_sent)
next
  fix i sent
  assume none: "ss = None"
    and h: "introspect env a' cf ss token = (Inr i, sent)
                \<and> (TokenType i = [] \<or> TokenType i = ''access_token'') \<and> Active i
                \<and> list_all (Has env (Audience_i i)) (Audience cf)
                \<and> (Issuers cf = [] \<or> Has env (Issuers cf) (Issuer i))"
  then have "introspect env a' cf ss token = (Inr i, sent)" by simp
  from Authenticate_checked(1) [OF assms this, of session] none h
  show "returned (Authenticate env a r session config) = None"
    by (simp add: check_result_without_strategy)
next
  fix strategy
  assume some: "ss = Some strategy"
  show "requests_sent (Authenticate env a r session config) =
              (case NewRequest env ''POST'' (IntrospectionURL cf)
                      (Encode env [''token'' \<mapsto> [token]]) of
                 Inl err \<Rightarrow> []
               | Inr req \<Rightarrow> [set_headers env cf req])"
    using Authenticate_sent [OF assms, of session] some
    by (simp add: introspect_sent)
next
  fix strategy i sent
  assume some: "ss = Some strategy"
    and res: "introspect env a' cf ss token = (Inr i, sent)"
    and ok: "returned (Authenticate env a r session config) = None"
  from Authenticate_checked(1) [OF assms res, of session] some ok
  have "check_result env (Some strategy) cf i = None"
    by simp
  then show "list_all (strategy (Split (Scope_i i) CHR '' '')) (Scopes cf)"
    by (rule check_result_success_scopes)
next
  fix strategy i sent
  assume some: "ss = Some strategy"
    and res: "introspect env a' cf ss token = (Inr i, sent)"
    and h: "(TokenType i = [] \<or> TokenType i = ''access_token'') \<and> Active i
                   \<and> list_all (Has env (Audience_i i)) (Audience cf)
                   \<and> (Issuers cf = [] \<or> Has env (Issuers cf) (Issuer i))
                   \<and> \<not> list_all (strategy (Split (Scope_i i) CHR '' '')) (Scopes cf)"
  from h have "check_result env (Some strategy) cf i = check_scopes strategy (Scopes cf) i"
    by (simp add: check_result_with_strategy)
  with Authenticate_checked(1) [OF assms res, of session] some
  have "returned (Authenticate env a r session config) = check_scopes strategy (Scopes cf) i"
    by simp
  with check_scopes_fails [of strategy i "Scopes cf"] h
  show "\<exists>scope \<in> set (Scopes cf).
                          \<not> strategy (Split (Scope_i i) CHR '' '') scope
                          \<and> returned (Authenticate env a r session config) =
                              Some (WithStack (ErrForbidden
                                     (''Scope '' @ scope @ '' was not granted'')))"
    by simp
qed

text \<open>
  The token \<open>''narrow''\<close> is granted the scope \<open>write\<close> alone, and the fixture
  requires \<open>read\<close>. Under the strategy \<open>none\<close>, which the provider resolves to
  \<^verbatim>\<open>nil\<close>, the form carries \<open>scope=read\<close> and the call succeeds; under \<open>exact\<close> the
  form carries the token alone and the call is answered with Forbidden.
\<close>

theorem Authenticate_scope_round_trip_witness:
  "map Body (requests_sent
       (Authenticate test_runtime test_authenticator (test_request ''narrow'') test_session raw_none))
     = [''scope=read&token=narrow'']
   \<and> returned (Authenticate test_runtime test_authenticator (test_request ''narrow'') test_session raw_none)
     = None
   \<and> map Body (requests_sent
       (Authenticate test_runtime test_authenticator (test_request ''narrow'') test_session raw_exact))
     = [''token=narrow'']
   \<and> returned (Authenticate test_runtime test_authenticator (test_request ''narrow'') test_session raw_exact)
     = Some (WithStack (ErrForbidden ''Scope read was not granted''))"
proof -
  let ?i = "result_u1\<lparr>Scope_i := ''write''\<rparr>"
  let ?none = "test_config\<lparr>ScopeStrategy := ''none''\<rparr>"
  have tok: "\<And>cf. BearerTokenFromRequest test_runtime (test_request ''narrow'')
               (BearerTokenLocation cf) = ''narrow''"
    by (simp add: fixture_defs)
  have ne: "''narrow'' \<noteq> []" by simp
  have ty: "TokenType ?i = [] \<or> TokenType ?i = ''access_token''"
    by (simp add: result_u1_def)
  have act: "Active ?i"
    by (simp add: result_u1_def)
  \<comment> \<open>strategy disabled\<close>
  have cfgN: "Config test_runtime test_authenticator raw_none = (Inr ?none, test_authenticator)"
    by (simp add: fixture_defs method_defs)
  have ssN: "ToScopeStrategy (provider test_authenticator) (ScopeStrategy ?none)
              ''authenticators.oauth2_introspection.scope_strategy'' = None"
    by (simp add: test_authenticator_def test_provider_def)
  have "fst (introspect test_runtime test_authenticator ?none None ''narrow'') = Inr ?i"
    by (simp add: fixture_defs method_defs)
  then have resN: "introspect test_runtime test_authenticator ?none None ''narrow'' =
      (Inr ?i, snd (introspect test_runtime test_authenticator ?none None ''narrow''))"
    by (metis prod.collapse)
  have audN: "list_all (Has test_runtime (Audience_i ?i)) (Audience ?none)"
    by (simp add: result_u1_def test_runtime_def test_config_def)
  have issN: "Issuers ?none = [] \<or> Has test_runtime (Issuers ?none) (Issuer ?i)"
    by (simp add: test_config_def)
  note N = Authenticate_scope_round_trip [OF cfgN tok ne ssN, of test_session,
              THEN conjunct1, THEN mp, OF refl]
  have n1: "map Body (requests_sent
       (Authenticate test_runtime test_authenticator (test_request ''narrow'') test_session raw_none))
     = [''scope=read&token=narrow'']"
    unfolding N [THEN conjunct1]
    by (simp add: fixture_defs set_headers_def)
  from N [THEN conjunct2] resN ty act audN issN have n2:
    "returned (Authenticate test_runtime test_authenticator (test_request ''narrow'') test_session raw_none)
     = None"
    by blast
  \<comment> \<open>strategy exact\<close>
  have cfgE: "Config test_runtime test_authenticator raw_exact = (Inr test_config, test_authenticator)"
    by (simp add: fixture_defs method_defs)
  have ssE: "ToScopeStrategy (provider test_authenticator) (ScopeStrategy test_config)
              ''authenticators.oauth2_introspection.scope_strategy'' = Some ExactScopeStrategy"
    by (simp add: test_authenticator_def test_provider_def test_config_def)
  have "fst (introspect test_runtime test_authenticator test_config (Some ExactScopeStrategy) ''narrow'')
          = Inr ?i"
    by (simp add: fixture_defs method_defs)
  then have resE: "introspect test_runtime test_authenticator test_config (Some ExactScopeStrategy) ''narrow'' =
      (Inr ?i, snd (introspect test_runtime test_authenticator test_config (Some ExactScopeStrategy) ''narrow''))"
    by (metis prod.collapse)
  have audE: "list_all (Has test_runtime (Audience_i ?i)) (Audience test_config)"
    by (simp add: result_u1_def test_runtime_def test_config_def)
  have issE: "Issuers test_config = [] \<or> Has test_runtime (Issuers test_config) (Issuer ?i)"
    by (simp add: test_config_def)
  have missing: "\<not> list_all (ExactScopeStrategy (Split (Scope_i ?i) CHR '' '')) (Scopes test_config)"
    by (simp add: ExactScopeStrategy_def test_config_def)
  note E = Authenticate_scope_round_trip [OF cfgE tok ne ssE, of test_session,
              THEN conjunct2, THEN spec, THEN mp, OF refl]
  have e1: "map Body (requests_sent
       (Authenticate test_runtime test_authenticator (test_request ''narrow'') test_session raw_exact))
     = [''token=narrow'']"
    unfolding E [THEN conjunct1]
    by (simp add: fixture_defs set_headers_def)
  from E [THEN conjunct2] resE ty act audE issE missing obtain scope where
    "scope \<in> set (Scopes test_config)"
    "returned (Authenticate test_runtime test_authenticator (test_request ''narrow'') test_session raw_exact)
     = Some (WithStack (ErrForbidden (''Scope '' @ scope @ '' was not granted'')))"
    by blast
  then have e2:
    "returned (Authenticate test_runtime test_authenticator (test_request ''narrow'') test_session raw_exact)
     = Some (WithStack (ErrForbidden ''Scope read was not granted''))"
    by (simp add: test_config_def)
  from n1 n2 e1 e2 show ?thesis by simp
qed

subsection \<open>The session on success\<close>

lemma inject_extra_lookup:
  "\<exists>m. Extra_i (inject_extra i) = Some m
     \<and> Mapping.lookup m ''username'' = Some (VString (Username i))
     \<and> Mapping.lookup m ''client_id'' = Some (VString (ClientID_i i))
     \<and> Mapping.lookup m ''scope'' = Some (VString (Scope_i i))
     \<and> (\<forall>key. key \<notin> {''username'', ''client_id'', ''scope''} \<longrightarrow>
           Mapping.lookup m key =
             (case Extra_i i of None \<Rightarrow> None | Some ext \<Rightarrow> Mapping.lookup ext key))"
proof -
  have empty: "\<And>m key. Mapping.is_empty m \<Longrightarrow> Mapping.lookup m key = (None :: any option)"
    by (metis Mapping.is_empty_def
          Mapping.keys_is_none_rep Option.is_none_def empty_iff)
  show ?thesis
    by (auto simp: inject_extra_def Let_def Mapping.lookup_update' empty
          split: option.splits)
qed

lemma inject_extra_subject: "Subject_i (inject_extra i) = Subject_i i"
  by (simp add: inject_extra_def Let_def)

text \<open>
  C7. When \<^verbatim>\<open>Authenticate\<close> returns \<^verbatim>\<open>nil\<close>, the configuration resolved and the endpoint's
  answer decoded to a result \<open>i\<close>; the session's subject is the subject of \<open>i\<close>, and the
  session's extra claims are a map (made anew when \<open>i\<close> had none) that holds the
  username, the client id and the scope of \<open>i\<close> under the keys \<open>username\<close>,
  \<open>client_id\<close> and \<open>scope\<close>, whatever \<^verbatim>\<open>ext\<close> held under them, and agrees with
  \<^verbatim>\<open>ext\<close> on every other key.
\<close>

theorem Authenticate_success_session:
  assumes "returned (Authenticate env a r session config) = None"
  shows "\<exists>cf a' i sent m.
           Config env a config = (Inr cf, a')
         \<and> introspect env a' cf
              (ToScopeStrategy (provider a') (ScopeStrategy cf)
                 ''authenticators.oauth2_introspection.scope_strategy'')
              (BearerTokenFromRequest env r (BearerTokenLocation cf)) = (Inr i, sent)
         \<and> Subject (session_after (Authenticate env a r session config)) = Subject_i i
         \<and> Extra (session_after (Authenticate env a r session config)) = Some m
         \<and> Mapping.lookup m ''username'' = Some (VString (Username i))
         \<and> Mapping.lookup m ''client_id'' = Some (VString (ClientID_i i))
         \<and> Mapping.lookup m ''scope'' = Some (VString (Scope_i i))
         \<and> (\<forall>key. key \<notin> {''username'', ''client_id'', ''scope''} \<longrightarrow>
               Mapping.lookup m key =
                 (case Extra_i i of None \<Rightarrow> None | Some ext \<Rightarrow> Mapping.lookup ext key))"
proof -
  obtain res a' where cfg: "Config env a config = (res, a')"
    by (cases "Config env a config")
  with assms obtain cf where res: "res = Inr cf"
    by (cases res) (auto simp: Authenticate_def)
  let ?token = "BearerTokenFromRequest env r (BearerTokenLocation cf)"
  let ?ss = "ToScopeStrategy (provider a') (ScopeStrategy cf)
               ''authenticators.oauth2_introspection.scope_strategy''"
  from assms cfg res have tok: "?token \<noteq> []"
    by (auto simp: Authenticate_def Let_def split: if_splits)
  obtain out sent where intro: "introspect env a' cf ?ss ?token = (out, sent)"
    by (cases "introspect env a' cf ?ss ?token")
  with assms cfg res tok obtain i where out: "out = Inr i"
    by (cases out) (auto simp: Authenticate_def Let_def)
  from assms cfg res tok intro out have chk: "check_result env ?ss cf i = None"
    by (auto simp: Authenticate_def Let_def split: option.splits)
  with cfg res tok intro out
  have after: "session_after (Authenticate env a r session config) =
                 store_session (inject_extra i) session"
    by (simp add: Authenticate_def Let_def)
  from inject_extra_lookup [of i] obtain m where
    m: "Extra_i (inject_extra i) = Some m"
      "Mapping.lookup m ''username'' = Some (VString (Username i))"
      "Mapping.lookup m ''client_id'' = Some (VString (ClientID_i i))"
      "Mapping.lookup m ''scope'' = Some (VString (Scope_i i))"
      "\<forall>key. key \<notin> {''username'', ''client_id'', ''scope''} \<longrightarrow>
           Mapping.lookup m key =
             (case Extra_i i of None \<Rightarrow> None | Some ext \<Rightarrow> Mapping.lookup ext key)"
    by blast
  from after m(1)
  have "Subject (session_after (Authenticate env a r session config)) = Subject_i i"
    and "Extra (session_after (Authenticate env a r session config)) = Some m"
    by (simp_all add: store_session_def inject_extra_subject)
  with cfg res intro out m(2-5) show ?thesis
    by blast
qed

text \<open>
  The answer for the token \<open>''abc''\<close> carries an \<^verbatim>\<open>ext\<close> object with the keys
  \<open>username\<close> and \<open>tenant\<close>: the first is overwritten by the result's username, the
  second is kept.
\<close>

theorem Authenticate_success_session_witness:
  "returned (Authenticate test_runtime test_authenticator (test_request ''abc'') test_session raw_exact)
     = None
   \<and> Subject (session_after
        (Authenticate test_runtime test_authenticator (test_request ''abc'') test_session raw_exact))
     = ''u1''
   \<and> (\<exists>m. Extra (session_after
        (Authenticate test_runtime test_authenticator (test_request ''abc'') test_session raw_exact))
          = Some m
        \<and> Mapping.lookup m ''username'' = Some (VString ''alice'')
        \<and> Mapping.lookup m ''client_id'' = Some (VString ''web'')
        \<and> Mapping.lookup m ''scope'' = Some (VString ''read write'')
        \<and> Mapping.lookup m ''tenant'' = Some (VString ''t1''))"
proof -
  let ?run = "Authenticate test_runtime test_authenticator (test_request ''abc'') test_session raw_exact"
  have ok: "returned ?run = None"
    by (simp add: fixture_defs method_defs)
  have cfg: "Config test_runtime test_authenticator raw_exact = (Inr test_config, test_authenticator)"
    by (simp add: fixture_defs method_defs)
  have tok: "BearerTokenFromRequest test_runtime (test_request ''abc'')
               (BearerTokenLocation test_config) = ''abc''"
    by (simp add: fixture_defs)
  have ss: "ToScopeStrategy (provider test_authenticator) (ScopeStrategy test_config)
              ''authenticators.oauth2_introspection.scope_strategy'' = Some ExactScopeStrategy"
    by (simp add: test_authenticator_def test_provider_def test_config_def)
  have dec: "fst (introspect test_runtime test_authenticator test_config (Some ExactScopeStrategy) ''abc'')
               = Inr result_u1"
    by (simp add: fixture_defs method_defs)
  from Authenticate_success_session [OF ok] obtain cf a' i sent m where
    all: "Config test_runtime test_authenticator raw_exact = (Inr cf, a')
      \<and> introspect test_runtime a' cf
              (ToScopeStrategy (provider a') (ScopeStrategy cf)
                 ''authenticators.oauth2_introspection.scope_strategy'')
              (BearerTokenFromRequest test_runtime (test_request ''abc'') (BearerTokenLocation cf))
            = (Inr i, sent)
      \<and> Subject (session_after ?run) = Subject_i i
      \<and> Extra (session_after ?run) = Some m
      \<and> Mapping.lookup m ''username'' = Some (VString (Username i))
      \<and> Mapping.lookup m ''client_id'' = Some (VString (ClientID_i i))
      \<and> Mapping.lookup m ''scope'' = Some (VString (Scope_i i))
      \<and> (\<forall>key. key \<notin> {''username'', ''client_id'', ''scope''} \<longrightarrow>
               Mapping.lookup m key =
                 (case Extra_i i of None \<Rightarrow> None | Some ext \<Rightarrow> Mapping.lookup ext key))"
    by (elim exE) (rule that)
  note c = all [THEN conjunct1]
  note r = all [THEN conjunct2, THEN conjunct1]
  note s = all [THEN conjunct2, THEN conjunct2, THEN conjunct1]
  note e = all [THEN conjunct2, THEN conjunct2, THEN conjunct2, THEN conjunct1]
  note u = all [THEN conjunct2, THEN conjunct2, THEN conjunct2, THEN conjunct2, THEN conjunct1]
  note ci = all [THEN conjunct2, THEN conjunct2, THEN conjunct2, THEN conjunct2, THEN conjunct2,
              THEN conjunct1]
  note sc = all [THEN conjunct2, THEN conjunct2, THEN conjunct2, THEN conjunct2, THEN conjunct2,
              THEN conjunct2, THEN conjunct1]
  note rest = all [THEN conjunct2, THEN conjunct2, THEN conjunct2, THEN conjunct2, THEN conjunct2,
              THEN conjunct2, THEN conjunct2, rule_format]
  from c cfg have cf: "cf = test_config" and a': "a' = test_authenticator"
    by simp_all
  from r have "fst (introspect test_runtime test_authenticator test_config (Some ExactScopeStrategy) ''abc'')
                 = Inr i"
    unfolding cf a' tok ss by simp
  with dec have i: "i = result_u1"
    by simp
  have "''tenant'' \<notin> {''username'', ''client_id'', ''scope''}"
    by simp
  then have "Mapping.lookup m ''tenant'' =
               (case Extra_i i of None \<Rightarrow> None | Some ext \<Rightarrow> Mapping.lookup ext ''tenant'')"
    by (rule rest)
  then have t: "Mapping.lookup m ''tenant'' = Some (VString ''t1'')"
    unfolding i by (simp add: result_u1_def Mapping.lookup_update')
  have s': "Subject (session_after ?run) = ''u1''"
    using s unfolding i by (simp add: result_u1_def)
  have u': "Mapping.lookup m ''username'' = Some (VString ''alice'')"
    using u unfolding i by (simp add: result_u1_def)
  have ci': "Mapping.lookup m ''client_id'' = Some (VString ''web'')"
    using ci unfolding i by (simp add: result_u1_def)
  have sc': "Mapping.lookup m ''scope'' = Some (VString ''read write'')"
    using sc unfolding i by (simp add: result_u1_def)
  from e u' ci' sc' t have
    "\<exists>m. Extra (session_after ?run) = Some m
        \<and> Mapping.lookup m ''username'' = Some (VString ''alice'')
        \<and> Mapping.lookup m ''client_id'' = Some (VString ''web'')
        \<and> Mapping.lookup m ''scope'' = Some (VString ''read write'')
        \<and> Mapping.lookup m ''tenant'' = Some (VString ''t1'')"
    by (intro exI [of _ m] conjI)
  with ok s' show ?thesis
    by (intro conjI)
qed

end
